theory Spec2Isabelle
  imports Complex_Main
begin

section \<open>JavaScript values\<close>

text \<open>
  The validators of \<^verbatim>\<open>src/types/index.ts\<close> work on untyped values (\<^verbatim>\<open>any\<close>): the
  result of \<^verbatim>\<open>JSON.parse\<close>, the value a schema decodes to, the value the
  caller's \<^verbatim>\<open>onError\<close> hands back, and the thing that is thrown. All of them
  are values of one type. An object is the list of its own properties in
  insertion order; \<open>ErrorObj n m\<close> is an instance of \<^verbatim>\<open>Error\<close> with name
  \<open>n\<close> and message \<open>m\<close>. A number is the real it denotes, \<open>NaN\<close> apart.
\<close>

datatype jsval =
    Undefined
  | Null
  | Bool bool
  | Num real
  | NaN
  | Str string
  | Arr "jsval list"
  | Obj "(string \<times> jsval) list"
  | ErrorObj string string

text \<open>
  A call either returns a value (\<open>Inr\<close>) or throws one (\<open>Inl\<close>). A callback
  supplied by the caller is arbitrary code: it reads and writes the caller's
  state \<open>'s\<close>.
\<close>

type_synonym 'a completion = "jsval + 'a"

type_synonym ('a, 's) js = "'s \<Rightarrow> 'a completion \<times> 's"

text \<open>\<^verbatim>\<open>!v\<close> is \<open>\<not> truthy v\<close>.\<close>

fun truthy :: "jsval \<Rightarrow> bool" where
  "truthy Undefined = False"
| "truthy Null = False"
| "truthy (Bool b) = b"
| "truthy (Num x) = (x \<noteq> 0)"
| "truthy NaN = False"
| "truthy (Str s) = (s \<noteq> [])"
| "truthy (Arr xs) = True"
| "truthy (Obj kvs) = True"
| "truthy (ErrorObj n m) = True"

fun Array_isArray :: "jsval \<Rightarrow> bool" where
  "Array_isArray (Arr xs) = True"
| "Array_isArray v = False"

fun typeof :: "jsval \<Rightarrow> string" where
  "typeof Undefined = ''undefined''"
| "typeof Null = ''object''"
| "typeof (Bool b) = ''boolean''"
| "typeof (Num x) = ''number''"
| "typeof NaN = ''number''"
| "typeof (Str s) = ''string''"
| "typeof (Arr xs) = ''object''"
| "typeof (Obj kvs) = ''object''"
| "typeof (ErrorObj n m) = ''object''"

definition TypeError :: "string \<Rightarrow> jsval" where
  "TypeError m = ErrorObj ''TypeError'' m"

text \<open>
  \<open>get_prop v k\<close> is \<^verbatim>\<open>v.k\<close> for the property names this module reads
  (\<^verbatim>\<open>uuid\<close>, \<^verbatim>\<open>snapshot\<close>, \<^verbatim>\<open>data\<close>, \<^verbatim>\<open>event\<close>, ...): none of them is
  defined on a prototype, so the read finds an own property of an object
  or \<^verbatim>\<open>undefined\<close>. Reading a property of \<^verbatim>\<open>null\<close> or \<^verbatim>\<open>undefined\<close>,
  as destructuring them, throws a TypeError.
\<close>

fun get_prop :: "jsval \<Rightarrow> string \<Rightarrow> jsval completion" where
  "get_prop Undefined k = Inl (TypeError (''Cannot read property '' @ k @ '' of undefined''))"
| "get_prop Null k = Inl (TypeError (''Cannot read property '' @ k @ '' of null''))"
| "get_prop (Obj kvs) k = Inr (case map_of kvs k of None \<Rightarrow> Undefined | Some v \<Rightarrow> v)"
| "get_prop (ErrorObj n m) k =
     Inr (if k = ''name'' then Str n else if k = ''message'' then Str m else Undefined)"
| "get_prop v k = Inr Undefined"

section \<open>Strings\<close>

text \<open>\<^verbatim>\<open>xs.join(sep)\<close> on an array of strings.\<close>

fun join :: "string \<Rightarrow> string list \<Rightarrow> string" where
  "join sep [] = []"
| "join sep [x] = x"
| "join sep (x # y # ys) = x @ sep @ join sep (y # ys)"

text \<open>A natural number in a template literal: its decimal digits.\<close>

definition digit :: "nat \<Rightarrow> char" where
  "digit d = char_of (48 + d)"

fun show_nat :: "nat \<Rightarrow> string" where
  "show_nat n = (if n < 10 then [digit n] else show_nat (n div 10) @ [digit (n mod 10)])"

declare show_nat.simps [simp del]

section \<open>The decoder and the error reporter\<close>

text \<open>
  A schema is an io-ts \<^verbatim>\<open>Type\<close>: a name and a \<^verbatim>\<open>decode\<close> that yields a
  validation, \<^verbatim>\<open>Left\<close> of the errors or \<^verbatim>\<open>Right\<close> of the decoded value.
  An error is represented by the message \<^verbatim>\<open>PathReporter\<close> renders for it,
  so that \<^verbatim>\<open>PathReporter.report\<close> of a failure is the list of the errors in
  order. The schemas are the caller's: \<open>decode\<close> is a parameter.
\<close>

type_synonym validation = "string list + jsval"

record 's Type =
  name :: string
  decode :: "jsval \<Rightarrow> 's \<Rightarrow> validation \<times> 's"

type_synonym 's OnError = "jsval \<Rightarrow> (jsval, 's) js"

fun PathReporter_report :: "validation \<Rightarrow> string list" where
  "PathReporter_report (Inl es) = es"
| "PathReporter_report (Inr a) = [''No errors!'']"

definition NUM_ERRORS :: nat where
  "NUM_ERRORS = 5"

definition DataValidationError :: "string \<Rightarrow> jsval" where
  "DataValidationError msg = ErrorObj ''DataValidationError'' msg"

definition newline :: string where
  "newline = [CHR 0x0A]"

text \<open>
  \<^verbatim>\<open>validate\<close> (lines 48 to 76). The calls of \<^verbatim>\<open>debug\<close> write to a log
  and have no part in the result; they are left out here and below.
  \<^verbatim>\<open>getOrElseL\<close> runs its argument on a \<^verbatim>\<open>Left\<close> only.
\<close>

definition validate :: "jsval \<Rightarrow> 's Type \<Rightarrow> 's OnError \<Rightarrow> (jsval, 's) js" where
  "validate data type onError s =
     (case decode type data s of
        (Inr decoded, s1) \<Rightarrow> (Inr decoded, s1)
      | (Inl es, s1) \<Rightarrow>
          (let paths = PathReporter_report (Inl es);
               pathsStr =
                 (if length paths \<le> NUM_ERRORS then join newline paths
                  else
                    (let firstErrors =
                       ''First '' @ show_nat NUM_ERRORS @ '': '' @ join newline (take NUM_ERRORS paths)
                     in show_nat (length paths) @ '' errors. '' @ firstErrors))
           in onError (DataValidationError pathsStr) s1))"

section \<open>The envelope validators\<close>

text \<open>
  \<^verbatim>\<open>JSON.parse\<close> belongs to the runtime, not to this repository: it is the
  parameter \<open>JSON_parse\<close>, which returns the parsed value or throws a
  SyntaxError. The frame \<open>msg\<close> is taken as text, so that
  \<^verbatim>\<open>msg.toString()\<close> is \<open>msg\<close> itself.

  \<^verbatim>\<open>SocketValidate.snapshot\<close> (lines 79 to 95). Destructuring
  \<^verbatim>\<open>{ uuid, snapshot }\<close> reads the two properties, and throws when the
  parsed value is \<^verbatim>\<open>null\<close>.
\<close>

definition SocketValidate_snapshot ::
  "(string \<Rightarrow> jsval completion) \<Rightarrow> string \<Rightarrow> 's Type \<Rightarrow> 's OnError \<Rightarrow> (jsval, 's) js" where
  "SocketValidate_snapshot JSON_parse msg type onError s =
     (let msgStr = msg in
      case JSON_parse msgStr of
        Inl e \<Rightarrow> (Inl e, s)
      | Inr json \<Rightarrow>
          (case get_prop json ''uuid'' of
             Inl e \<Rightarrow> (Inl e, s)
           | Inr uuid \<Rightarrow>
               (case get_prop json ''snapshot'' of
                  Inl e \<Rightarrow> (Inl e, s)
                | Inr snapshot \<Rightarrow>
                    if \<not> truthy uuid then
                      onError (Str (''Message '' @ msgStr @ '' has no UUID'')) s
                    else if \<not> truthy snapshot then
                      onError (Str (''Message '' @ msgStr @ '' has no 'snapshot' field!'')) s
                    else if \<not> Array_isArray snapshot then
                      onError (Str (''Snapshot in message '' @ msgStr @ '' is not an array!'')) s
                    else
                      (case validate snapshot type onError s of
                         (Inl e, s1) \<Rightarrow> (Inl e, s1)
                       | (Inr decoded, s1) \<Rightarrow>
                           (Inr (Obj [(''uuid'', uuid), (''snapshot'', decoded)]), s1)))))"

text \<open>
  \<^verbatim>\<open>SocketValidate.data\<close> (lines 97 to 119). The block of lines 102 to 108
  only logs the length and the first element of an array payload.
\<close>

definition SocketValidate_data ::
  "(string \<Rightarrow> jsval completion) \<Rightarrow> string \<Rightarrow> 's Type \<Rightarrow> 's OnError \<Rightarrow> (jsval, 's) js" where
  "SocketValidate_data JSON_parse msg type onError s =
     (let msgStr = msg in
      case JSON_parse msgStr of
        Inl e \<Rightarrow> (Inl e, s)
      | Inr json \<Rightarrow>
          (case get_prop json ''uuid'' of
             Inl e \<Rightarrow> (Inl e, s)
           | Inr uuid \<Rightarrow>
               (case get_prop json ''data'' of
                  Inl e \<Rightarrow> (Inl e, s)
                | Inr data \<Rightarrow>
                    if \<not> truthy uuid then
                      onError (Str (''Message '' @ msgStr @ '' has no UUID!'')) s
                    else if \<not> truthy data then
                      onError (Str (''Message '' @ msgStr @ '' has no 'data' field!'')) s
                    else
                      (case validate data type onError s of
                         (Inl e, s1) \<Rightarrow> (Inl e, s1)
                       | (Inr decoded, s1) \<Rightarrow>
                           (Inr (Obj [(''uuid'', uuid), (''data'', decoded)]), s1)))))"

text \<open>\<^verbatim>\<open>RestValidate.data\<close> (lines 122 to 128): the error policy rethrows.\<close>

definition RestValidate_data :: "jsval \<Rightarrow> 's Type \<Rightarrow> (jsval, 's) js" where
  "RestValidate_data data type = validate data type (\<lambda>err s. (Inl err, s))"

section \<open>The message classifier\<close>

text \<open>
  \<^verbatim>\<open>a && b\<close> yields \<open>a\<close> when it is falsy and \<open>b\<close> otherwise; \<open>b\<close> is not
  evaluated, and cannot throw, in the first case.
\<close>

definition js_and :: "jsval completion \<Rightarrow> jsval completion \<Rightarrow> jsval completion" where
  "js_and a b = (case a of Inl e \<Rightarrow> Inl e | Inr v \<Rightarrow> if truthy v then b else Inr v)"

text \<open>\<^verbatim>\<open>typeof x === t\<close> and \<^verbatim>\<open>x === c\<close> for a string constant \<open>c\<close>.\<close>

definition typeof_is :: "jsval completion \<Rightarrow> string \<Rightarrow> jsval completion" where
  "typeof_is x t = (case x of Inl e \<Rightarrow> Inl e | Inr v \<Rightarrow> Inr (Bool (typeof v = t)))"

definition is_string :: "jsval completion \<Rightarrow> string \<Rightarrow> jsval completion" where
  "is_string x c = (case x of Inl e \<Rightarrow> Inl e | Inr v \<Rightarrow> Inr (Bool (v = Str c)))"

definition isArray_of :: "jsval completion \<Rightarrow> jsval completion" where
  "isArray_of x = (case x of Inl e \<Rightarrow> Inl e | Inr v \<Rightarrow> Inr (Bool (Array_isArray v)))"

definition PAYMENT_RECEIVED :: string where
  "PAYMENT_RECEIVED = ''payment received''"

definition UNSUBSCRIBED :: string where
  "UNSUBSCRIBED = ''unsubscribed''"

definition MessageTypes_isSnapshot :: "jsval \<Rightarrow> jsval completion" where
  "MessageTypes_isSnapshot msg =
     js_and (js_and (get_prop msg ''snapshot'') (isArray_of (get_prop msg ''snapshot'')))
       (typeof_is (get_prop msg ''uuid'') ''string'')"

definition MessageTypes_hasUuid :: "jsval \<Rightarrow> jsval completion" where
  "MessageTypes_hasUuid msg = typeof_is (get_prop msg ''uuid'') ''string''"

definition MessageTypes_hasDataAndUuid :: "jsval \<Rightarrow> jsval completion" where
  "MessageTypes_hasDataAndUuid msg =
     js_and (isArray_of (get_prop msg ''data'')) (MessageTypes_hasUuid msg)"

definition MessageTypes_isPaymentReceived :: "jsval \<Rightarrow> jsval completion" where
  "MessageTypes_isPaymentReceived msg =
     js_and (js_and (js_and (js_and
       (typeof_is (get_prop msg ''uuid'') ''string'')
       (typeof_is (get_prop msg ''exchange'') ''string''))
       (typeof_is (get_prop msg ''duration'') ''number''))
       (is_string (get_prop msg ''event'') PAYMENT_RECEIVED))
       (typeof_is (get_prop msg ''symbol'') ''string'')"

definition MessageTypes_isUnubscribed :: "jsval \<Rightarrow> jsval completion" where
  "MessageTypes_isUnubscribed msg =
     js_and (js_and
       (typeof_is (get_prop msg ''uuid'') ''string'')
       (is_string (get_prop msg ''event'') UNSUBSCRIBED))
       (typeof_is (get_prop msg ''amountRefunded'') ''number'')"

section \<open>Observing the calls\<close>

text \<open>
  Whether a run calls the decoder or \<open>onError\<close>, with what and to what
  outcome, is observed as a test observes it: each callback is wrapped so
  that it appends its call to a log carried beside the caller's state, and
  otherwise behaves as before.
\<close>

datatype call = DecodeCall jsval validation | OnErrorCall jsval "jsval completion"

definition spy_type :: "'s Type \<Rightarrow> (call list \<times> 's) Type" where
  "spy_type type =
     \<lparr>name = name type,
      decode = (\<lambda>v (cs, s). case decode type v s of (r, s1) \<Rightarrow> (r, (cs @ [DecodeCall v r], s1)))\<rparr>"

definition spy_onError :: "'s OnError \<Rightarrow> (call list \<times> 's) OnError" where
  "spy_onError onError =
     (\<lambda>err (cs, s). case onError err s of (r, s1) \<Rightarrow> (r, (cs @ [OnErrorCall err r], s1)))"

definition calls_of :: "'a \<times> call list \<times> 's \<Rightarrow> call list" where
  "calls_of run = fst (snd run)"

section \<open>Callbacks and frames to run the validators on\<close>

text \<open>
  A schema that accepts every value as it is (io-ts \<^verbatim>\<open>t.any\<close>), one that
  rejects every value with the given errors, the lenient error policy that
  substitutes \<^verbatim>\<open>null\<close>, and the strict one that throws what it is given.
  None of them has a state of its own.
\<close>

definition accept :: "unit Type" where
  "accept = \<lparr>name = ''any'', decode = (\<lambda>v s. (Inr v, s))\<rparr>"

definition reject :: "string list \<Rightarrow> unit Type" where
  "reject es = \<lparr>name = ''never'', decode = (\<lambda>v s. (Inl es, s))\<rparr>"

definition lenient :: "unit OnError" where
  "lenient = (\<lambda>err s. (Inr Null, s))"

definition strict :: "unit OnError" where
  "strict = (\<lambda>err s. (Inl err, s))"

definition SyntaxError :: "string \<Rightarrow> jsval" where
  "SyntaxError m = ErrorObj ''SyntaxError'' m"

text \<open>
  \<open>parsing frame v\<close> is \<^verbatim>\<open>JSON.parse\<close> cut down to the texts a run below
  gives it: the frame, whose JSON value is \<open>v\<close>, and texts that are not
  JSON, on which it throws a SyntaxError.
\<close>

definition parsing :: "string \<Rightarrow> jsval \<Rightarrow> string \<Rightarrow> jsval completion" where
  "parsing frame v text =
     (if text = frame then Inr v else Inl (SyntaxError (''Unexpected token in JSON: '' @ text)))"

text \<open>Frames, each with the value of its JSON text.\<close>

definition full_frame :: string where
  \<open>full_frame = ''{"uuid":"a","snapshot":[1],"data":[1]}''\<close>

definition full_json :: jsval where
  "full_json = Obj [(''uuid'', Str ''a''), (''snapshot'', Arr [Num 1]), (''data'', Arr [Num 1])]"

definition no_uuid_frame :: string where
  \<open>no_uuid_frame = ''{"snapshot":[1,2]}''\<close>

definition no_uuid_json :: jsval where
  "no_uuid_json = Obj [(''snapshot'', Arr [Num 1, Num 2])]"

definition empty_uuid_frame :: string where
  \<open>empty_uuid_frame = ''{"uuid":"","snapshot":[1],"data":[1]}''\<close>

definition empty_uuid_json :: jsval where
  "empty_uuid_json = Obj [(''uuid'', Str []), (''snapshot'', Arr [Num 1]), (''data'', Arr [Num 1])]"

definition object_data_frame :: string where
  \<open>object_data_frame = ''{"uuid":"a","data":{"k":1}}''\<close>

definition object_data_json :: jsval where
  "object_data_json = Obj [(''uuid'', Str ''a''), (''data'', Obj [(''k'', Num 1)])]"

section \<open>Helper lemmas\<close>

text \<open>The equations that run the validators on concrete callbacks and frames.\<close>

lemmas run_defs =
  SocketValidate_snapshot_def SocketValidate_data_def validate_def
  spy_type_def spy_onError_def calls_of_def accept_def reject_def lenient_def strict_def
  parsing_def DataValidationError_def Let_def

lemma show_nat_NUM_ERRORS: "show_nat NUM_ERRORS = ''5''"
  by code_simp

lemma validate_Inr:
  "decode type data s = (Inr a, s1) \<Longrightarrow> validate data type onError s = (Inr a, s1)"
  by (simp add: validate_def)

lemma validate_Inl:
  "decode type data s = (Inl paths, s1) \<Longrightarrow>
   validate data type onError s =
     onError (DataValidationError
       (if length paths \<le> 5 then join newline paths
        else show_nat (length paths) @ '' errors. First 5: '' @ join newline (take 5 paths))) s1"
  by (simp add: validate_def show_nat_NUM_ERRORS) (simp add: NUM_ERRORS_def)

text \<open>Reading a property throws for every name or for none.\<close>

lemma get_prop_total:
  "get_prop json k = Inr v \<Longrightarrow> \<exists>w. get_prop json k' = Inr w"
  by (cases json) simp_all

text \<open>The validators once the frame has parsed and the envelope's fields are read.\<close>

lemma snapshot_parsed:
  "JSON_parse msg = Inr json \<Longrightarrow> get_prop json ''uuid'' = Inr uuid \<Longrightarrow>
   get_prop json ''snapshot'' = Inr snapshot \<Longrightarrow>
   SocketValidate_snapshot JSON_parse msg type onError s =
     (if \<not> truthy uuid then onError (Str (''Message '' @ msg @ '' has no UUID'')) s
      else if \<not> truthy snapshot then
        onError (Str (''Message '' @ msg @ '' has no 'snapshot' field!'')) s
      else if \<not> Array_isArray snapshot then
        onError (Str (''Snapshot in message '' @ msg @ '' is not an array!'')) s
      else
        (case validate snapshot type onError s of
           (Inl e, s1) \<Rightarrow> (Inl e, s1)
         | (Inr decoded, s1) \<Rightarrow> (Inr (Obj [(''uuid'', uuid), (''snapshot'', decoded)]), s1)))"
  by (simp add: SocketValidate_snapshot_def)

lemma data_parsed:
  "JSON_parse msg = Inr json \<Longrightarrow> get_prop json ''uuid'' = Inr uuid \<Longrightarrow>
   get_prop json ''data'' = Inr data \<Longrightarrow>
   SocketValidate_data JSON_parse msg type onError s =
     (if \<not> truthy uuid then onError (Str (''Message '' @ msg @ '' has no UUID!'')) s
      else if \<not> truthy data then
        onError (Str (''Message '' @ msg @ '' has no 'data' field!'')) s
      else
        (case validate data type onError s of
           (Inl e, s1) \<Rightarrow> (Inl e, s1)
         | (Inr decoded, s1) \<Rightarrow> (Inr (Obj [(''uuid'', uuid), (''data'', decoded)]), s1)))"
  by (simp add: SocketValidate_data_def)

lemma snapshot_unparsed:
  "JSON_parse msg = Inr json \<Longrightarrow> get_prop json ''uuid'' = Inl e \<Longrightarrow>
   SocketValidate_snapshot JSON_parse msg type onError s = (Inl e, s)"
  by (simp add: SocketValidate_snapshot_def)

lemma data_unparsed:
  "JSON_parse msg = Inr json \<Longrightarrow> get_prop json ''uuid'' = Inl e \<Longrightarrow>
   SocketValidate_data JSON_parse msg type onError s = (Inl e, s)"
  by (simp add: SocketValidate_data_def)

text \<open>
  The JSON text \<^verbatim>\<open>null\<close> parses, and is no envelope: destructuring it throws
  before any check, and no callback is called.
\<close>

lemma null_frame_throws:
  "JSON_parse msg = Inr Null \<Longrightarrow>
   SocketValidate_snapshot JSON_parse msg type onError s =
     (Inl (TypeError ''Cannot read property uuid of null''), s) \<and>
   SocketValidate_data JSON_parse msg type onError s =
     (Inl (TypeError ''Cannot read property uuid of null''), s)"
  by (simp add: SocketValidate_snapshot_def SocketValidate_data_def)

text \<open>The wrapped callbacks: the same outcome, and the call appended to the log.\<close>

lemma decode_spy_type:
  "decode (spy_type type) v (cs, s) =
     (fst (decode type v s), (cs @ [DecodeCall v (fst (decode type v s))], snd (decode type v s)))"
  by (simp add: spy_type_def split: prod.splits)

lemma spy_onError_apply:
  "spy_onError onError err (cs, s) =
     (fst (onError err s), (cs @ [OnErrorCall err (fst (onError err s))], snd (onError err s)))"
  by (simp add: spy_onError_def split: prod.splits)

lemma validate_spy_Inr:
  assumes "decode type data s = (Inr a, s1)"
  shows "validate data (spy_type type) (spy_onError onError) (cs, s) =
           (Inr a, (cs @ [DecodeCall data (Inr a)], s1))"
proof -
  from assms have "decode (spy_type type) data (cs, s) = (Inr a, (cs @ [DecodeCall data (Inr a)], s1))"
    by (simp add: decode_spy_type)
  then show ?thesis
    by (rule validate_Inr)
qed

lemma validate_spy_Inl:
  assumes "decode type data s = (Inl paths, s1)"
    and "err = DataValidationError
       (if length paths \<le> 5 then join newline paths
        else show_nat (length paths) @ '' errors. First 5: '' @ join newline (take 5 paths))"
  shows "validate data (spy_type type) (spy_onError onError) (cs, s) =
           (fst (onError err s1),
            (cs @ [DecodeCall data (Inl paths), OnErrorCall err (fst (onError err s1))],
             snd (onError err s1)))"
proof -
  from assms have "decode (spy_type type) data (cs, s) = (Inl paths, (cs @ [DecodeCall data (Inl paths)], s1))"
    by (simp add: decode_spy_type)
  from validate_Inl [OF this] assms(2) show ?thesis
    by (simp add: spy_onError_apply)
qed

lemma calls_of_wrap:
  "calls_of (case r of (Inl e, s1) \<Rightarrow> (Inl e, s1) | (Inr d, s1) \<Rightarrow> (Inr (f d), s1)) = calls_of r"
  by (simp add: calls_of_def split: prod.splits sum.splits)

lemma fst_wrap:
  "fst (case r of (Inl e, s1) \<Rightarrow> (Inl e, s1) | (Inr d, s1) \<Rightarrow> (Inr (f d), s1)) =
     (case fst r of Inl e \<Rightarrow> Inl e | Inr d \<Rightarrow> Inr (f d))"
  by (simp split: prod.splits sum.splits)

lemma calls_of_spy_onError:
  "calls_of (spy_onError onError err ([], s)) = [OnErrorCall err (fst (onError err s))]"
  by (simp add: calls_of_def spy_onError_apply)

text \<open>
  Observing a run does not change it: the observed run has the outcome and
  the final state of the plain run, beside the log.
\<close>

lemma validate_observed:
  "validate data (spy_type type) (spy_onError onError) (cs, s) =
     (fst (validate data type onError s),
      (calls_of (validate data (spy_type type) (spy_onError onError) (cs, s)),
       snd (validate data type onError s)))"
proof (cases "decode type data s")
  case (Pair r s1)
  show ?thesis
  proof (cases r)
    case (Inl paths)
    with Pair have d: "decode type data s = (Inl paths, s1)"
      by simp
    show ?thesis
      by (simp add: validate_spy_Inl [OF d refl] validate_Inl [OF d] calls_of_def)
  next
    case (Inr a)
    with Pair have d: "decode type data s = (Inr a, s1)"
      by simp
    show ?thesis
      by (simp add: validate_spy_Inr [OF d] validate_Inr [OF d] calls_of_def)
  qed
qed

lemma wrap_observed:
  assumes "run = (fst plain, (cs, snd plain))"
  shows "(case run of (Inl e, s1) \<Rightarrow> (Inl e, s1) | (Inr d, s1) \<Rightarrow> (Inr (f d), s1)) =
     (fst (case plain of (Inl e, s1) \<Rightarrow> (Inl e, s1) | (Inr d, s1) \<Rightarrow> (Inr (f d), s1)),
      (cs, snd (case plain of (Inl e, s1) \<Rightarrow> (Inl e, s1) | (Inr d, s1) \<Rightarrow> (Inr (f d), s1))))"
  using assms by (cases plain; cases "fst plain") auto

lemma snapshot_observed:
  "SocketValidate_snapshot JSON_parse msg (spy_type type) (spy_onError onError) ([], s) =
     (fst (SocketValidate_snapshot JSON_parse msg type onError s),
      (calls_of (SocketValidate_snapshot JSON_parse msg (spy_type type) (spy_onError onError) ([], s)),
       snd (SocketValidate_snapshot JSON_parse msg type onError s)))"
proof (cases "JSON_parse msg")
  case (Inl e)
  then show ?thesis
    by (simp add: SocketValidate_snapshot_def calls_of_def)
next
  case (Inr json)
  show ?thesis
  proof (cases "get_prop json ''uuid''")
    case (Inl e)
    with Inr show ?thesis
      by (simp add: snapshot_unparsed calls_of_def)
  next
    case uuid: (Inr uuid)
    from get_prop_total [OF uuid] obtain snapshot where snapshot: "get_prop json ''snapshot'' = Inr snapshot"
      by blast
    note sp = snapshot_parsed [where JSON_parse = JSON_parse and msg = msg, OF Inr uuid snapshot]
    show ?thesis
      by (simp add: sp spy_onError_apply calls_of_def
            wrap_observed [OF validate_observed])
  qed
qed

lemma data_observed:
  "SocketValidate_data JSON_parse msg (spy_type type) (spy_onError onError) ([], s) =
     (fst (SocketValidate_data JSON_parse msg type onError s),
      (calls_of (SocketValidate_data JSON_parse msg (spy_type type) (spy_onError onError) ([], s)),
       snd (SocketValidate_data JSON_parse msg type onError s)))"
proof (cases "JSON_parse msg")
  case (Inl e)
  then show ?thesis
    by (simp add: SocketValidate_data_def calls_of_def)
next
  case (Inr json)
  show ?thesis
  proof (cases "get_prop json ''uuid''")
    case (Inl e)
    with Inr show ?thesis
      by (simp add: data_unparsed calls_of_def)
  next
    case uuid: (Inr uuid)
    from get_prop_total [OF uuid] obtain data where data: "get_prop json ''data'' = Inr data"
      by blast
    note dp = data_parsed [where JSON_parse = JSON_parse and msg = msg, OF Inr uuid data]
    show ?thesis
      by (simp add: dp spy_onError_apply calls_of_def
            wrap_observed [OF validate_observed])
  qed
qed

lemma fst_snapshot_observed:
  "fst (SocketValidate_snapshot JSON_parse msg (spy_type type) (spy_onError onError) ([], s)) =
   fst (SocketValidate_snapshot JSON_parse msg type onError s)"
  by (subst snapshot_observed) simp

lemma fst_data_observed:
  "fst (SocketValidate_data JSON_parse msg (spy_type type) (spy_onError onError) ([], s)) =
   fst (SocketValidate_data JSON_parse msg type onError s)"
  by (subst data_observed) simp

lemma DecodeCall_in_validate:
  "DecodeCall v r \<in> set (calls_of (validate data (spy_type type) (spy_onError onError) ([], s)))
   \<Longrightarrow> v = data"
  by (cases "decode type data s"; cases "fst (decode type data s)")
    (auto simp: validate_spy_Inl validate_spy_Inr calls_of_def)

lemma OnErrorCall_in_spy_onError:
  "OnErrorCall err (Inl e) \<in> set (calls_of (spy_onError onError m ([], s))) \<Longrightarrow>
   fst (spy_onError onError m ([], s)) = Inl e"
  by (simp add: calls_of_def spy_onError_apply)

lemma OnErrorCall_in_validate:
  assumes "OnErrorCall err (Inl e) \<in>
     set (calls_of (validate data (spy_type type) (spy_onError onError) ([], s)))"
  shows "fst (validate data (spy_type type) (spy_onError onError) ([], s)) = Inl e"
proof (cases "decode type data s")
  case (Pair r s1)
  show ?thesis
  proof (cases r)
    case (Inl paths)
    with Pair have "decode type data s = (Inl paths, s1)"
      by simp
    from validate_spy_Inl [OF this refl] assms show ?thesis
      by (auto simp: calls_of_def)
  next
    case (Inr a)
    with Pair have "decode type data s = (Inr a, s1)"
      by simp
    from validate_spy_Inr [OF this] assms show ?thesis
      by (auto simp: calls_of_def)
  qed
qed

lemma isSnapshot_true:
  "MessageTypes_isSnapshot msg = Inr (Bool True) \<Longrightarrow>
   \<exists>uuid. get_prop msg ''uuid'' = Inr uuid \<and> typeof uuid = ''string''"
  by (cases "get_prop msg ''snapshot''"; cases "get_prop msg ''uuid''")
    (auto simp: MessageTypes_isSnapshot_def js_and_def typeof_is_def isArray_of_def
       split: if_splits)

section \<open>The claims\<close>

text \<open>
  C1, as the code has it. Whenever a run of \<^verbatim>\<open>SocketValidate.snapshot\<close> calls
  the decoder on a value \<open>v\<close>, the frame has parsed, the envelope's \<^verbatim>\<open>uuid\<close>
  is truthy and \<open>v\<close> is its \<^verbatim>\<open>snapshot\<close> field, an array. Whenever a run of
  \<^verbatim>\<open>SocketValidate.data\<close> calls the decoder on \<open>v\<close>, the frame has parsed,
  the \<^verbatim>\<open>uuid\<close> is truthy and \<open>v\<close> is the \<^verbatim>\<open>data\<close> field, which is truthy:
  no check makes it an array.
\<close>

theorem decoder_reached_after_envelope_check:
  "(DecodeCall v r \<in> set (calls_of
       (SocketValidate_snapshot JSON_parse msg (spy_type type) (spy_onError onError) ([], s))) \<longrightarrow>
     (\<exists>json uuid. JSON_parse msg = Inr json \<and> get_prop json ''uuid'' = Inr uuid \<and> truthy uuid \<and>
        get_prop json ''snapshot'' = Inr v \<and> Array_isArray v)) \<and>
   (DecodeCall v r \<in> set (calls_of
       (SocketValidate_data JSON_parse msg (spy_type type) (spy_onError onError) ([], s))) \<longrightarrow>
     (\<exists>json uuid. JSON_parse msg = Inr json \<and> get_prop json ''uuid'' = Inr uuid \<and> truthy uuid \<and>
        get_prop json ''data'' = Inr v \<and> truthy v))"
proof (cases "JSON_parse msg")
  case (Inl e)
  then show ?thesis
    by (simp add: SocketValidate_snapshot_def SocketValidate_data_def calls_of_def)
next
  case (Inr json)
  show ?thesis
  proof (cases "get_prop json ''uuid''")
    case (Inl e)
    with Inr show ?thesis
      by (simp add: snapshot_unparsed data_unparsed calls_of_def)
  next
    case uuid: (Inr uuid)
    from get_prop_total [OF uuid] obtain snapshot where snapshot: "get_prop json ''snapshot'' = Inr snapshot"
      by blast
    from get_prop_total [OF uuid] obtain data where data: "get_prop json ''data'' = Inr data"
      by blast
    have "DecodeCall v r \<in> set (calls_of
        (SocketValidate_snapshot JSON_parse msg (spy_type type) (spy_onError onError) ([], s))) \<Longrightarrow>
      truthy uuid \<and> snapshot = v \<and> Array_isArray v"
      by (auto simp: snapshot_parsed [where JSON_parse = JSON_parse and msg = msg, OF Inr uuid snapshot]
            calls_of_spy_onError calls_of_wrap
            split: if_splits dest: DecodeCall_in_validate)
    moreover have "DecodeCall v r \<in> set (calls_of
        (SocketValidate_data JSON_parse msg (spy_type type) (spy_onError onError) ([], s))) \<Longrightarrow>
      truthy uuid \<and> data = v \<and> truthy v"
      by (auto simp: data_parsed [where JSON_parse = JSON_parse and msg = msg, OF Inr uuid data]
            calls_of_spy_onError calls_of_wrap
            split: if_splits dest: DecodeCall_in_validate)
    ultimately show ?thesis
      using Inr uuid snapshot data by auto
  qed
qed

theorem decoder_reached_after_envelope_check_witness:
  "DecodeCall (Arr [Num 1]) (Inr (Arr [Num 1])) \<in> set (calls_of
     (SocketValidate_snapshot (parsing full_frame full_json) full_frame
        (spy_type accept) (spy_onError strict) ([], ()))) \<and>
   DecodeCall (Arr [Num 1]) (Inr (Arr [Num 1])) \<in> set (calls_of
     (SocketValidate_data (parsing full_frame full_json) full_frame
        (spy_type accept) (spy_onError strict) ([], ()))) \<and>
   parsing full_frame full_json full_frame = Inr full_json \<and>
   get_prop full_json ''uuid'' = Inr (Str ''a'') \<and> truthy (Str ''a'') \<and>
   get_prop full_json ''snapshot'' = Inr (Arr [Num 1]) \<and>
   get_prop full_json ''data'' = Inr (Arr [Num 1]) \<and>
   Array_isArray (Arr [Num 1]) \<and> truthy (Arr [Num 1])"
  using decoder_reached_after_envelope_check
    [where JSON_parse = "parsing full_frame full_json" and msg = full_frame and type = accept
       and onError = strict and s = "()" and v = "Arr [Num 1]" and r = "Inr (Arr [Num 1])"]
  by (simp add: run_defs full_frame_def full_json_def)

text \<open>
  Against C1 as the spec states it, with an array for both validators: on
  the frame \<^verbatim>\<open>{"uuid":"a","data":{"k":1}}\<close>, \<^verbatim>\<open>SocketValidate.data\<close> calls the
  decoder on the object \<^verbatim>\<open>{"k":1}\<close>, which is not an array.
\<close>

theorem data_decodes_object_counterexample:
  "DecodeCall (Obj [(''k'', Num 1)]) (Inr (Obj [(''k'', Num 1)])) \<in> set (calls_of
     (SocketValidate_data (parsing object_data_frame object_data_json) object_data_frame
        (spy_type accept) (spy_onError strict) ([], ()))) \<and>
   \<not> Array_isArray (Obj [(''k'', Num 1)])"
  by (simp add: run_defs object_data_frame_def object_data_json_def)


text \<open>
  C2. When the frame parses to an object with no \<^verbatim>\<open>uuid\<close> field,
  \<^verbatim>\<open>SocketValidate.snapshot\<close> is the call of \<open>onError\<close> on the message
  \<^verbatim>\<open>Message <frame> has no UUID\<close>: it returns or throws what that call
  returns or throws, the call is the only one made, and with the policy
  that returns \<^verbatim>\<open>null\<close> the validator returns \<^verbatim>\<open>null\<close>.
\<close>

theorem snapshot_no_uuid:
  "JSON_parse msg = Inr (Obj kvs) \<Longrightarrow> map_of kvs ''uuid'' = None \<Longrightarrow>
   SocketValidate_snapshot JSON_parse msg type onError s =
     onError (Str (''Message '' @ msg @ '' has no UUID'')) s \<and>
   calls_of (SocketValidate_snapshot JSON_parse msg (spy_type type) (spy_onError onError) ([], s)) =
     [OnErrorCall (Str (''Message '' @ msg @ '' has no UUID''))
        (fst (onError (Str (''Message '' @ msg @ '' has no UUID'')) s))] \<and>
   SocketValidate_snapshot JSON_parse msg type (\<lambda>err s. (Inr Null, s)) s = (Inr Null, s)"
  by (simp add: SocketValidate_snapshot_def calls_of_spy_onError)

theorem snapshot_no_uuid_witness:
  "parsing no_uuid_frame no_uuid_json no_uuid_frame = Inr (Obj [(''snapshot'', Arr [Num 1, Num 2])]) \<and>
   map_of [(''snapshot'', Arr [Num 1, Num 2])] ''uuid'' = None \<and>
   SocketValidate_snapshot (parsing no_uuid_frame no_uuid_json) no_uuid_frame accept lenient () =
     (Inr Null, ()) \<and>
   calls_of (SocketValidate_snapshot (parsing no_uuid_frame no_uuid_json) no_uuid_frame
     (spy_type accept) (spy_onError lenient) ([], ())) =
     [OnErrorCall (Str (''Message '' @ no_uuid_frame @ '' has no UUID'')) (Inr Null)]"
  using snapshot_no_uuid
    [where JSON_parse = "parsing no_uuid_frame no_uuid_json" and msg = no_uuid_frame
       and kvs = "[(''snapshot'', Arr [Num 1, Num 2])]"
       and type = accept and onError = lenient and s = "()"]
  by (simp add: parsing_def no_uuid_json_def lenient_def)

text \<open>
  C3. When decoding fails with the messages \<open>paths\<close>, \<open>onError\<close> receives a
  DataValidationError whose message is all of them joined by newlines when
  there are at most five, and otherwise the total count followed by
  \<^verbatim>\<open>errors. First 5:\<close> and the first five joined by newlines.
\<close>

theorem validate_summary:
  "decode type data s = (Inl paths, s1) \<Longrightarrow>
   validate data type onError s =
     onError (DataValidationError
       (if length paths \<le> 5 then join newline paths
        else show_nat (length paths) @ '' errors. First 5: '' @ join newline (take 5 paths))) s1"
  by (rule validate_Inl)

theorem validate_summary_witness:
  "decode (reject [''e1'', ''e2'', ''e3'', ''e4'', ''e5'', ''e6'']) (Arr [Num 1]) () =
     (Inl [''e1'', ''e2'', ''e3'', ''e4'', ''e5'', ''e6''], ()) \<and>
   validate (Arr [Num 1]) (reject [''e1'', ''e2'', ''e3'', ''e4'', ''e5'', ''e6'']) strict () =
     (Inl (DataValidationError ''6 errors. First 5: e1\<newline>e2\<newline>e3\<newline>e4\<newline>e5''), ()) \<and>
   decode (reject [''e1'', ''e2'']) (Arr [Num 1]) () = (Inl [''e1'', ''e2''], ()) \<and>
   validate (Arr [Num 1]) (reject [''e1'', ''e2'']) strict () =
     (Inl (DataValidationError ''e1\<newline>e2''), ())"
proof -
  have "show_nat (Suc (Suc (Suc (Suc (Suc (Suc 0)))))) = ''6''"
    by code_simp
  then show ?thesis
    using validate_summary
      [where type = "reject [''e1'', ''e2'', ''e3'', ''e4'', ''e5'', ''e6'']" and data = "Arr [Num 1]"
         and s = "()" and paths = "[''e1'', ''e2'', ''e3'', ''e4'', ''e5'', ''e6'']" and ?s1.0 = "()"
         and onError = strict]
      validate_summary
      [where type = "reject [''e1'', ''e2'']" and data = "Arr [Num 1]"
         and s = "()" and paths = "[''e1'', ''e2'']" and ?s1.0 = "()" and onError = strict]
    by (simp add: reject_def strict_def newline_def)
qed


text \<open>
  C4. When \<^verbatim>\<open>JSON.parse\<close> throws on the frame, both validators throw the
  same exception and leave the state as it was; no callback is called.
\<close>

theorem parse_failure_propagates:
  "JSON_parse msg = Inl e \<Longrightarrow>
   SocketValidate_snapshot JSON_parse msg type onError s = (Inl e, s) \<and>
   SocketValidate_data JSON_parse msg type onError s = (Inl e, s) \<and>
   calls_of (SocketValidate_snapshot JSON_parse msg (spy_type type) (spy_onError onError) ([], s)) = [] \<and>
   calls_of (SocketValidate_data JSON_parse msg (spy_type type) (spy_onError onError) ([], s)) = []"
  by (simp add: SocketValidate_snapshot_def SocketValidate_data_def calls_of_def)

theorem parse_failure_propagates_witness:
  "parsing full_frame full_json ''{not json'' =
     Inl (SyntaxError ''Unexpected token in JSON: {not json'') \<and>
   SocketValidate_snapshot (parsing full_frame full_json) ''{not json'' accept lenient () =
     (Inl (SyntaxError ''Unexpected token in JSON: {not json''), ()) \<and>
   SocketValidate_data (parsing full_frame full_json) ''{not json'' accept lenient () =
     (Inl (SyntaxError ''Unexpected token in JSON: {not json''), ()) \<and>
   calls_of (SocketValidate_snapshot (parsing full_frame full_json) ''{not json''
     (spy_type accept) (spy_onError lenient) ([], ())) = [] \<and>
   calls_of (SocketValidate_data (parsing full_frame full_json) ''{not json''
     (spy_type accept) (spy_onError lenient) ([], ())) = []"
  using parse_failure_propagates
    [where JSON_parse = "parsing full_frame full_json" and msg = "''{not json''"
       and e = "SyntaxError ''Unexpected token in JSON: {not json''"
       and type = accept and onError = lenient and s = "()"]
  by (simp add: parsing_def full_frame_def)

text \<open>
  C5. On the frame \<^verbatim>\<open>{"uuid":"abc","data":[]}\<close>, with a schema that decodes
  the empty array to itself, \<^verbatim>\<open>SocketValidate.data\<close> returns the object with
  \<^verbatim>\<open>uuid\<close> \<^verbatim>\<open>abc\<close> and \<^verbatim>\<open>data\<close> the empty array; the decoder is called
  once and \<open>onError\<close> not at all.
\<close>

theorem data_empty_array:
  assumes \<open>JSON_parse ''{"uuid":"abc","data":[]}'' = Inr (Obj [(''uuid'', Str ''abc''), (''data'', Arr [])])\<close>
    and "decode type (Arr []) s = (Inr (Arr []), s1)"
  shows \<open>SocketValidate_data JSON_parse ''{"uuid":"abc","data":[]}'' type onError s =
           (Inr (Obj [(''uuid'', Str ''abc''), (''data'', Arr [])]), s1) \<and>
         calls_of (SocketValidate_data JSON_parse ''{"uuid":"abc","data":[]}''
           (spy_type type) (spy_onError onError) ([], s)) = [DecodeCall (Arr []) (Inr (Arr []))]\<close>
  using assms by (simp add: SocketValidate_data_def validate_Inr validate_spy_Inr calls_of_def)

theorem data_empty_array_witness:
  \<open>parsing ''{"uuid":"abc","data":[]}'' (Obj [(''uuid'', Str ''abc''), (''data'', Arr [])])
     ''{"uuid":"abc","data":[]}'' = Inr (Obj [(''uuid'', Str ''abc''), (''data'', Arr [])]) \<and>
   decode accept (Arr []) () = (Inr (Arr []), ()) \<and>
   SocketValidate_data
     (parsing ''{"uuid":"abc","data":[]}'' (Obj [(''uuid'', Str ''abc''), (''data'', Arr [])]))
     ''{"uuid":"abc","data":[]}'' accept strict () =
     (Inr (Obj [(''uuid'', Str ''abc''), (''data'', Arr [])]), ()) \<and>
   calls_of (SocketValidate_data
     (parsing ''{"uuid":"abc","data":[]}'' (Obj [(''uuid'', Str ''abc''), (''data'', Arr [])]))
     ''{"uuid":"abc","data":[]}'' (spy_type accept) (spy_onError strict) ([], ())) =
     [DecodeCall (Arr []) (Inr (Arr []))]\<close>
  using data_empty_array
    [where JSON_parse =
         \<open>parsing ''{"uuid":"abc","data":[]}'' (Obj [(''uuid'', Str ''abc''), (''data'', Arr [])])\<close>
       and type = accept and onError = strict and s = "()" and ?s1.0 = "()"]
  by (simp add: parsing_def accept_def)


text \<open>
  C6. When decoding fails, \<^verbatim>\<open>RestValidate.data\<close> throws an Error object whose
  name is \<^verbatim>\<open>DataValidationError\<close> and whose message is the summary of the
  errors (all of them joined by newlines when there are at most five,
  otherwise the count, \<^verbatim>\<open>errors. First 5:\<close> and the first five); it returns
  nothing then. When decoding succeeds it returns the decoded value.
\<close>

theorem RestValidate_data_strict:
  "(decode type data s = (Inl paths, s1) \<longrightarrow>
      RestValidate_data data type s =
        (Inl (ErrorObj ''DataValidationError''
          (if length paths \<le> 5 then join newline paths
           else show_nat (length paths) @ '' errors. First 5: '' @ join newline (take 5 paths))), s1) \<and>
      (\<exists>e. fst (RestValidate_data data type s) = Inl e \<and>
         get_prop e ''name'' = Inr (Str ''DataValidationError'') \<and>
         get_prop e ''message'' = Inr (Str
          (if length paths \<le> 5 then join newline paths
           else show_nat (length paths) @ '' errors. First 5: '' @ join newline (take 5 paths))))) \<and>
   (decode type data s = (Inr a, s1) \<longrightarrow> RestValidate_data data type s = (Inr a, s1))"
  by (simp add: RestValidate_data_def validate_Inl validate_Inr DataValidationError_def)

theorem RestValidate_data_strict_witness:
  "decode (reject [''e1'', ''e2'']) (Obj [(''k'', Num 1)]) () = (Inl [''e1'', ''e2''], ()) \<and>
   RestValidate_data (Obj [(''k'', Num 1)]) (reject [''e1'', ''e2'']) () =
     (Inl (ErrorObj ''DataValidationError'' ''e1\<newline>e2''), ()) \<and>
   get_prop (ErrorObj ''DataValidationError'' ''e1\<newline>e2'') ''name'' =
     Inr (Str ''DataValidationError'') \<and>
   get_prop (ErrorObj ''DataValidationError'' ''e1\<newline>e2'') ''message'' = Inr (Str ''e1\<newline>e2'') \<and>
   decode (reject [''e1'', ''e2'', ''e3'', ''e4'', ''e5'', ''e6'']) (Obj [(''k'', Num 1)]) () =
     (Inl [''e1'', ''e2'', ''e3'', ''e4'', ''e5'', ''e6''], ()) \<and>
   RestValidate_data (Obj [(''k'', Num 1)]) (reject [''e1'', ''e2'', ''e3'', ''e4'', ''e5'', ''e6'']) () =
     (Inl (ErrorObj ''DataValidationError''
        ''6 errors. First 5: e1\<newline>e2\<newline>e3\<newline>e4\<newline>e5''), ()) \<and>
   decode accept (Obj [(''k'', Num 1)]) () = (Inr (Obj [(''k'', Num 1)]), ()) \<and>
   RestValidate_data (Obj [(''k'', Num 1)]) accept () = (Inr (Obj [(''k'', Num 1)]), ())"
proof -
  have "show_nat (Suc (Suc (Suc (Suc (Suc (Suc 0)))))) = ''6''"
    by code_simp
  then show ?thesis
    using RestValidate_data_strict
      [where type = "reject [''e1'', ''e2'']" and data = "Obj [(''k'', Num 1)]" and s = "()"
         and paths = "[''e1'', ''e2'']" and ?s1.0 = "()"]
      RestValidate_data_strict
      [where type = "reject [''e1'', ''e2'', ''e3'', ''e4'', ''e5'', ''e6'']"
         and data = "Obj [(''k'', Num 1)]" and s = "()"
         and paths = "[''e1'', ''e2'', ''e3'', ''e4'', ''e5'', ''e6'']" and ?s1.0 = "()"]
      RestValidate_data_strict
      [where type = accept and data = "Obj [(''k'', Num 1)]" and s = "()"
         and a = "Obj [(''k'', Num 1)]" and ?s1.0 = "()"]
    by (simp add: reject_def accept_def newline_def)
qed


text \<open>
  C7. Whenever a run of \<^verbatim>\<open>SocketValidate.snapshot\<close> or of
  \<^verbatim>\<open>SocketValidate.data\<close> calls \<open>onError\<close> and the call throws \<open>e\<close>, for
  an envelope error or for a decode error, the validator throws \<open>e\<close>.
\<close>

theorem onError_exception_propagates:
  "(OnErrorCall err (Inl e) \<in> set (calls_of
       (SocketValidate_snapshot JSON_parse msg (spy_type type) (spy_onError onError) ([], s))) \<longrightarrow>
     fst (SocketValidate_snapshot JSON_parse msg type onError s) = Inl e) \<and>
   (OnErrorCall err (Inl e) \<in> set (calls_of
       (SocketValidate_data JSON_parse msg (spy_type type) (spy_onError onError) ([], s))) \<longrightarrow>
     fst (SocketValidate_data JSON_parse msg type onError s) = Inl e)"
proof (cases "JSON_parse msg")
  case (Inl e)
  then show ?thesis
    by (simp add: SocketValidate_snapshot_def SocketValidate_data_def calls_of_def)
next
  case (Inr json)
  show ?thesis
  proof (cases "get_prop json ''uuid''")
    case (Inl e)
    with Inr show ?thesis
      by (simp add: snapshot_unparsed data_unparsed calls_of_def)
  next
    case uuid: (Inr uuid)
    from get_prop_total [OF uuid] obtain snapshot where snapshot: "get_prop json ''snapshot'' = Inr snapshot"
      by blast
    from get_prop_total [OF uuid] obtain data where data: "get_prop json ''data'' = Inr data"
      by blast
    have "OnErrorCall err (Inl e) \<in> set (calls_of
        (SocketValidate_snapshot JSON_parse msg (spy_type type) (spy_onError onError) ([], s))) \<Longrightarrow>
      fst (SocketValidate_snapshot JSON_parse msg (spy_type type) (spy_onError onError) ([], s)) = Inl e"
      by (auto simp: snapshot_parsed [where JSON_parse = JSON_parse and msg = msg, OF Inr uuid snapshot]
            calls_of_wrap fst_wrap
            split: if_splits dest: OnErrorCall_in_validate OnErrorCall_in_spy_onError)
    moreover have "OnErrorCall err (Inl e) \<in> set (calls_of
        (SocketValidate_data JSON_parse msg (spy_type type) (spy_onError onError) ([], s))) \<Longrightarrow>
      fst (SocketValidate_data JSON_parse msg (spy_type type) (spy_onError onError) ([], s)) = Inl e"
      by (auto simp: data_parsed [where JSON_parse = JSON_parse and msg = msg, OF Inr uuid data]
            calls_of_wrap fst_wrap
            split: if_splits dest: OnErrorCall_in_validate OnErrorCall_in_spy_onError)
    ultimately show ?thesis
      by (simp add: fst_snapshot_observed fst_data_observed)
  qed
qed

theorem onError_exception_propagates_witness:
  "OnErrorCall (DataValidationError ''bad'') (Inl (DataValidationError ''bad'')) \<in> set (calls_of
     (SocketValidate_snapshot (parsing full_frame full_json) full_frame
        (spy_type (reject [''bad''])) (spy_onError strict) ([], ()))) \<and>
   fst (SocketValidate_snapshot (parsing full_frame full_json) full_frame (reject [''bad'']) strict ()) =
     Inl (DataValidationError ''bad'') \<and>
   OnErrorCall (DataValidationError ''bad'') (Inl (DataValidationError ''bad'')) \<in> set (calls_of
     (SocketValidate_data (parsing full_frame full_json) full_frame
        (spy_type (reject [''bad''])) (spy_onError strict) ([], ()))) \<and>
   fst (SocketValidate_data (parsing full_frame full_json) full_frame (reject [''bad'']) strict ()) =
     Inl (DataValidationError ''bad'')"
  using onError_exception_propagates
    [where JSON_parse = "parsing full_frame full_json" and msg = full_frame
       and type = "reject [''bad'']" and onError = strict and s = "()"
       and err = "DataValidationError ''bad''" and e = "DataValidationError ''bad''"]
  by (simp add: run_defs NUM_ERRORS_def full_frame_def full_json_def)

text \<open>
  C8. The object \<^verbatim>\<open>{"uuid":"x","event":"unsubscribed","amountRefunded":5}\<close>
  satisfies \<^verbatim>\<open>isUnubscribed\<close> and \<^verbatim>\<open>hasUuid\<close> and not
  \<^verbatim>\<open>isPaymentReceived\<close>; and whatever \<^verbatim>\<open>isSnapshot\<close> returns true on,
  \<^verbatim>\<open>hasUuid\<close> returns true on.
\<close>

theorem classifier_unsubscribed:
  "MessageTypes_isUnubscribed
     (Obj [(''uuid'', Str ''x''), (''event'', Str ''unsubscribed''), (''amountRefunded'', Num 5)]) =
     Inr (Bool True) \<and>
   MessageTypes_hasUuid
     (Obj [(''uuid'', Str ''x''), (''event'', Str ''unsubscribed''), (''amountRefunded'', Num 5)]) =
     Inr (Bool True) \<and>
   MessageTypes_isPaymentReceived
     (Obj [(''uuid'', Str ''x''), (''event'', Str ''unsubscribed''), (''amountRefunded'', Num 5)]) =
     Inr (Bool False) \<and>
   (MessageTypes_isSnapshot msg = Inr (Bool True) \<longrightarrow> MessageTypes_hasUuid msg = Inr (Bool True))"
proof -
  have "MessageTypes_isSnapshot msg = Inr (Bool True) \<Longrightarrow> MessageTypes_hasUuid msg = Inr (Bool True)"
    by (auto simp: MessageTypes_hasUuid_def typeof_is_def dest: isSnapshot_true)
  then show ?thesis
    by (simp add: MessageTypes_isUnubscribed_def MessageTypes_hasUuid_def
          MessageTypes_isPaymentReceived_def js_and_def typeof_is_def is_string_def
          UNSUBSCRIBED_def PAYMENT_RECEIVED_def)
qed

theorem classifier_unsubscribed_witness:
  "MessageTypes_isSnapshot (Obj [(''uuid'', Str ''x''), (''snapshot'', Arr [])]) = Inr (Bool True) \<and>
   MessageTypes_hasUuid (Obj [(''uuid'', Str ''x''), (''snapshot'', Arr [])]) = Inr (Bool True)"
  using classifier_unsubscribed [where msg = "Obj [(''uuid'', Str ''x''), (''snapshot'', Arr [])]"]
  by (simp add: MessageTypes_isSnapshot_def js_and_def isArray_of_def typeof_is_def)


text \<open>
  C9. When the envelope's \<^verbatim>\<open>uuid\<close> is falsy (the empty string, \<^verbatim>\<open>0\<close>,
  \<^verbatim>\<open>false\<close>, \<^verbatim>\<open>null\<close>, or absent), each validator is the call of
  \<open>onError\<close> on its no-UUID message, whatever the schema, and that call is
  the only one made: the decoder is not reached.
\<close>

theorem falsy_uuid_is_missing:
  "JSON_parse msg = Inr json \<Longrightarrow> get_prop json ''uuid'' = Inr uuid \<Longrightarrow> \<not> truthy uuid \<Longrightarrow>
   SocketValidate_snapshot JSON_parse msg type onError s =
     onError (Str (''Message '' @ msg @ '' has no UUID'')) s \<and>
   SocketValidate_data JSON_parse msg type onError s =
     onError (Str (''Message '' @ msg @ '' has no UUID!'')) s \<and>
   calls_of (SocketValidate_snapshot JSON_parse msg (spy_type type) (spy_onError onError) ([], s)) =
     [OnErrorCall (Str (''Message '' @ msg @ '' has no UUID''))
        (fst (onError (Str (''Message '' @ msg @ '' has no UUID'')) s))] \<and>
   calls_of (SocketValidate_data JSON_parse msg (spy_type type) (spy_onError onError) ([], s)) =
     [OnErrorCall (Str (''Message '' @ msg @ '' has no UUID!''))
        (fst (onError (Str (''Message '' @ msg @ '' has no UUID!'')) s))]"
  by (cases json)
    (simp_all add: SocketValidate_snapshot_def SocketValidate_data_def calls_of_spy_onError)

theorem falsy_uuid_is_missing_witness:
  "parsing empty_uuid_frame empty_uuid_json empty_uuid_frame = Inr empty_uuid_json \<and>
   get_prop empty_uuid_json ''uuid'' = Inr (Str []) \<and> \<not> truthy (Str []) \<and>
   SocketValidate_snapshot (parsing empty_uuid_frame empty_uuid_json) empty_uuid_frame
     accept lenient () = (Inr Null, ()) \<and>
   SocketValidate_data (parsing empty_uuid_frame empty_uuid_json) empty_uuid_frame
     accept lenient () = (Inr Null, ()) \<and>
   calls_of (SocketValidate_snapshot (parsing empty_uuid_frame empty_uuid_json) empty_uuid_frame
     (spy_type accept) (spy_onError lenient) ([], ())) =
     [OnErrorCall (Str (''Message '' @ empty_uuid_frame @ '' has no UUID'')) (Inr Null)] \<and>
   calls_of (SocketValidate_data (parsing empty_uuid_frame empty_uuid_json) empty_uuid_frame
     (spy_type accept) (spy_onError lenient) ([], ())) =
     [OnErrorCall (Str (''Message '' @ empty_uuid_frame @ '' has no UUID!'')) (Inr Null)]"
  using falsy_uuid_is_missing
    [where JSON_parse = "parsing empty_uuid_frame empty_uuid_json" and msg = empty_uuid_frame
       and json = empty_uuid_json and uuid = "Str []"
       and type = accept and onError = lenient and s = "()"]
  by (simp add: parsing_def empty_uuid_json_def lenient_def)

text \<open>
  C10. With the envelope read, if the checks pass, decoding fails and
  \<open>onError\<close> returns \<open>v\<close> for the DataValidationError, then
  \<^verbatim>\<open>SocketValidate.snapshot\<close> returns \<^verbatim>\<open>{ uuid, snapshot: v }\<close> and
  \<^verbatim>\<open>SocketValidate.data\<close> returns \<^verbatim>\<open>{ uuid, data: v }\<close>; if a check fails,
  the validator is the call of \<open>onError\<close> on a message, and what that call
  returns is returned as it is.
\<close>

theorem decode_fallback_wrapped:
  assumes "JSON_parse msg = Inr json"
    and "get_prop json ''uuid'' = Inr uuid"
    and "get_prop json ''snapshot'' = Inr snapshot"
    and "get_prop json ''data'' = Inr data"
    and "err = (\<lambda>paths. DataValidationError
       (if length paths \<le> 5 then join newline paths
        else show_nat (length paths) @ '' errors. First 5: '' @ join newline (take 5 paths)))"
  shows "(truthy uuid \<and> Array_isArray snapshot \<and> decode type snapshot s = (Inl paths, s1) \<and>
          onError (err paths) s1 = (Inr v, s2) \<longrightarrow>
          SocketValidate_snapshot JSON_parse msg type onError s =
            (Inr (Obj [(''uuid'', uuid), (''snapshot'', v)]), s2)) \<and>
         (truthy uuid \<and> truthy data \<and> decode type data s = (Inl paths, s1) \<and>
          onError (err paths) s1 = (Inr v, s2) \<longrightarrow>
          SocketValidate_data JSON_parse msg type onError s =
            (Inr (Obj [(''uuid'', uuid), (''data'', v)]), s2)) \<and>
         (\<not> (truthy uuid \<and> truthy snapshot \<and> Array_isArray snapshot) \<longrightarrow>
          (\<exists>m. SocketValidate_snapshot JSON_parse msg type onError s = onError (Str m) s)) \<and>
         (\<not> (truthy uuid \<and> truthy data) \<longrightarrow>
          (\<exists>m. SocketValidate_data JSON_parse msg type onError s = onError (Str m) s))"
proof -
  have arr: "Array_isArray snapshot \<Longrightarrow> truthy snapshot"
    by (cases snapshot) simp_all
  note sp = snapshot_parsed [where JSON_parse = JSON_parse and msg = msg, OF assms(1-3)]
  note dp = data_parsed [where JSON_parse = JSON_parse and msg = msg, OF assms(1,2,4)]
  have "truthy uuid \<Longrightarrow> Array_isArray snapshot \<Longrightarrow> decode type snapshot s = (Inl paths, s1) \<Longrightarrow>
      onError (err paths) s1 = (Inr v, s2) \<Longrightarrow>
      SocketValidate_snapshot JSON_parse msg type onError s =
        (Inr (Obj [(''uuid'', uuid), (''snapshot'', v)]), s2)"
    using arr by (simp add: sp validate_Inl assms(5))
  moreover have "truthy uuid \<Longrightarrow> truthy data \<Longrightarrow> decode type data s = (Inl paths, s1) \<Longrightarrow>
      onError (err paths) s1 = (Inr v, s2) \<Longrightarrow>
      SocketValidate_data JSON_parse msg type onError s =
        (Inr (Obj [(''uuid'', uuid), (''data'', v)]), s2)"
    by (simp add: dp validate_Inl assms(5))
  moreover have "\<not> (truthy uuid \<and> truthy snapshot \<and> Array_isArray snapshot) \<Longrightarrow>
      \<exists>m. SocketValidate_snapshot JSON_parse msg type onError s = onError (Str m) s"
    by (auto simp: sp)
  moreover have "\<not> (truthy uuid \<and> truthy data) \<Longrightarrow>
      \<exists>m. SocketValidate_data JSON_parse msg type onError s = onError (Str m) s"
    by (auto simp: dp)
  ultimately show ?thesis
    by blast
qed

theorem decode_fallback_wrapped_witness:
  "parsing full_frame full_json full_frame = Inr full_json \<and>
   get_prop full_json ''uuid'' = Inr (Str ''a'') \<and>
   get_prop full_json ''snapshot'' = Inr (Arr [Num 1]) \<and>
   get_prop full_json ''data'' = Inr (Arr [Num 1]) \<and>
   truthy (Str ''a'') \<and> Array_isArray (Arr [Num 1]) \<and> truthy (Arr [Num 1]) \<and>
   decode (reject [''bad'']) (Arr [Num 1]) () = (Inl [''bad''], ()) \<and>
   lenient (DataValidationError ''bad'') () = (Inr Null, ()) \<and>
   SocketValidate_snapshot (parsing full_frame full_json) full_frame (reject [''bad'']) lenient () =
     (Inr (Obj [(''uuid'', Str ''a''), (''snapshot'', Null)]), ()) \<and>
   SocketValidate_data (parsing full_frame full_json) full_frame (reject [''bad'']) lenient () =
     (Inr (Obj [(''uuid'', Str ''a''), (''data'', Null)]), ()) \<and>
   parsing empty_uuid_frame empty_uuid_json empty_uuid_frame = Inr empty_uuid_json \<and>
   get_prop empty_uuid_json ''uuid'' = Inr (Str []) \<and> \<not> truthy (Str []) \<and>
   SocketValidate_snapshot (parsing empty_uuid_frame empty_uuid_json) empty_uuid_frame
     (reject [''bad'']) lenient () = (Inr Null, ()) \<and>
   SocketValidate_data (parsing empty_uuid_frame empty_uuid_json) empty_uuid_frame
     (reject [''bad'']) lenient () = (Inr Null, ())"
  using decode_fallback_wrapped
    [where JSON_parse = "parsing full_frame full_json" and msg = full_frame and json = full_json
       and uuid = "Str ''a''" and snapshot = "Arr [Num 1]" and data = "Arr [Num 1]"
       and type = "reject [''bad'']" and onError = lenient and s = "()" and ?s1.0 = "()"
       and ?s2.0 = "()" and paths = "[''bad'']" and v = Null, OF _ _ _ _ refl]
    decode_fallback_wrapped
    [where JSON_parse = "parsing empty_uuid_frame empty_uuid_json" and msg = empty_uuid_frame
       and json = empty_uuid_json
       and uuid = "Str []" and snapshot = "Arr [Num 1]" and data = "Arr [Num 1]"
       and type = "reject [''bad'']" and onError = lenient and s = "()", OF _ _ _ _ refl]
  by (simp add: parsing_def full_frame_def full_json_def empty_uuid_frame_def empty_uuid_json_def
        reject_def lenient_def)

end
